theory Spec2Isabelle
  imports Main "HOL-Library.Word"
begin

section \<open>Values of the Go program\<close>

text \<open>
  A non-nil Go \<open>error\<close> is identified by its message; a value of Go type \<open>error\<close> is an
  \<open>error option\<close>, \<open>None\<close> being \<open>nil\<close>. An \<open>interface{}\<close> value is an \<open>iface\<close>.
  Handles (\<open>*sqlx.DB\<close>, \<open>*sqlx.Tx\<close>, \<open>*sqlx.Rows\<close>) are natural numbers; a pointer that
  may be nil is an option.
\<close>

type_synonym error = string

datatype iface = INil | IInt int | IStr string | IErr error

text \<open>
  The value of a panic, as \<open>recover()\<close> answers it: an error value, or any other
  \<open>interface{}\<close> value. \<open>PanicVal INil\<close> is the nil interface, which \<open>recover()\<close>
  answers for a \<open>panic(nil)\<close> before Go 1.21; from Go 1.21 on such a panic is answered as
  a non-nil runtime error, so \<open>PanicVal INil\<close> does not occur there.
\<close>

datatype panic_val = PanicErr error | PanicVal iface

text \<open>A call either returns or panics.\<close>

datatype 'a outcome = Returned 'a | Panicked panic_val

type_synonym rows = "nat option"

text \<open>\<open>type resultSet struct { rowsAffected int64; err error }\<close>\<close>

record resultSet =
  rowsAffected :: "64 word"
  err :: "error option"

text \<open>
  A value of the interface \<open>sql.Result\<close>: the result the driver produced, this package's
  \<open>*resultSet\<close>, or the nil interface.
\<close>

datatype sql_Result = DriverResult nat | ResultSetPtr resultSet | NilResult

text \<open>\<open>type unitOfWork struct { db *sqlx.DB; tx *sqlx.Tx }\<close>\<close>

record unitOfWork =
  db :: nat
  tx :: "nat option"

section \<open>The data-access collaborator\<close>

text \<open>
  The package \<open>sqlx\<close> is outside the repository. Every call the unit of work makes on a
  connection or on a transaction handle is recorded as an event, and what the collaborator
  answers is a parameter: a record of functions, one for each method the source calls, from
  the events so far, the handle called and the arguments to the method's Go result. The
  methods named \<open>Must...\<close> panic instead of returning an error.
\<close>

datatype target = OnDb nat | OnTx nat

datatype call =
    NamedExecC string iface
  | QueryxC string "iface list"
  | SelectC iface string "iface list"
  | NamedQueryC string iface
  | MustExecC string "iface list"
  | GetC iface string "iface list"
  | MustBeginC
  | CommitC
  | RollbackC

datatype event = Event target call

record sqlx =
  sqlx_NamedExec :: "event list \<Rightarrow> target \<Rightarrow> string \<Rightarrow> iface \<Rightarrow> sql_Result \<times> error option"
  sqlx_Queryx :: "event list \<Rightarrow> target \<Rightarrow> string \<Rightarrow> iface list \<Rightarrow> rows \<times> error option"
  sqlx_Select :: "event list \<Rightarrow> target \<Rightarrow> iface \<Rightarrow> string \<Rightarrow> iface list \<Rightarrow> error option"
  sqlx_NamedQuery :: "event list \<Rightarrow> target \<Rightarrow> string \<Rightarrow> iface \<Rightarrow> rows \<times> error option"
  sqlx_MustExec :: "event list \<Rightarrow> target \<Rightarrow> string \<Rightarrow> iface list \<Rightarrow> panic_val + sql_Result"
  sqlx_Get :: "event list \<Rightarrow> target \<Rightarrow> iface \<Rightarrow> string \<Rightarrow> iface list \<Rightarrow> error option"
  sqlx_MustBegin :: "event list \<Rightarrow> nat \<Rightarrow> panic_val + nat option"
  sqlx_Commit :: "event list \<Rightarrow> nat \<Rightarrow> error option"
  sqlx_Rollback :: "event list \<Rightarrow> nat \<Rightarrow> error option"

section \<open>The state a call runs in\<close>

text \<open>
  The instance \<open>u\<close> the methods are called on, the calls made on the collaborator so far,
  and the lines \<open>log.Println\<close> has written (each the error value printed).
\<close>

record world =
  uow :: unitOfWork
  calls :: "event list"
  printed :: "error option list"

definition record_call :: "target \<Rightarrow> call \<Rightarrow> world \<Rightarrow> world" where
  "record_call t c s = s\<lparr>calls := calls s @ [Event t c]\<rparr>"

definition Println :: "error option \<Rightarrow> world \<Rightarrow> world" where
  "Println e s = s\<lparr>printed := printed s @ [e]\<rparr>"

text \<open>
  The message of \<open>errors.New\<close> in \<open>begin\<close>, \<open>Commit\<close> and \<open>Rollback\<close>, in the bytes of
  the source file (UTF-8: c-cedilla is C3 A7, a-tilde is C3 A3).
\<close>

definition noTransactionMsg :: error where
  "noTransactionMsg =
     ''Nenhuma transa'' @ [CHR 0xC3, CHR 0xA7, CHR 0xC3, CHR 0xA3] @ ''o foi iniciada.''"

section \<open>The constructor and the result adapter\<close>

definition NewUnitOfWork :: "nat \<Rightarrow> nat option \<Rightarrow> unitOfWork" where
  "NewUnitOfWork d t = \<lparr>db = d, tx = t\<rparr>"

definition LastInsertId :: "resultSet \<Rightarrow> 64 word \<times> error option" where
  "LastInsertId r = (rowsAffected r, err r)"

definition RowsAffected :: "resultSet \<Rightarrow> 64 word \<times> error option" where
  "RowsAffected r = (rowsAffected r, err r)"

section \<open>Query and exec operations\<close>

definition MustNamedExec :: "sqlx \<Rightarrow> string \<Rightarrow> iface \<Rightarrow> world \<Rightarrow> sql_Result outcome \<times> world" where
  "MustNamedExec env query arg s =
     (case tx (uow s) of
        Some h \<Rightarrow>
          (case sqlx_NamedExec env (calls s) (OnTx h) query arg of
             (res, Some e) \<Rightarrow>
               (Returned (ResultSetPtr \<lparr>rowsAffected = 0, err = Some e\<rparr>),
                record_call (OnTx h) (NamedExecC query arg) s)
           | (res, None) \<Rightarrow> (Returned res, record_call (OnTx h) (NamedExecC query arg) s))
      | None \<Rightarrow>
          (case sqlx_NamedExec env (calls s) (OnDb (db (uow s))) query arg of
             (res, Some e) \<Rightarrow>
               (Returned (ResultSetPtr \<lparr>rowsAffected = 0, err = Some e\<rparr>),
                record_call (OnDb (db (uow s))) (NamedExecC query arg) s)
           | (res, None) \<Rightarrow>
               (Returned res, record_call (OnDb (db (uow s))) (NamedExecC query arg) s)))"

definition Query :: "sqlx \<Rightarrow> string \<Rightarrow> iface list \<Rightarrow> world \<Rightarrow> (rows \<times> error option) outcome \<times> world" where
  "Query env query args s =
     (case tx (uow s) of
        Some h \<Rightarrow>
          (Returned (sqlx_Queryx env (calls s) (OnTx h) query args),
           record_call (OnTx h) (QueryxC query args) s)
      | None \<Rightarrow>
          (Returned (sqlx_Queryx env (calls s) (OnDb (db (uow s))) query args),
           record_call (OnDb (db (uow s))) (QueryxC query args) s))"

definition Select :: "sqlx \<Rightarrow> iface \<Rightarrow> string \<Rightarrow> iface list \<Rightarrow> world \<Rightarrow> error option outcome \<times> world" where
  "Select env dest query args s =
     (case tx (uow s) of
        Some h \<Rightarrow>
          (Returned (sqlx_Select env (calls s) (OnTx h) dest query args),
           record_call (OnTx h) (SelectC dest query args) s)
      | None \<Rightarrow>
          (Returned (sqlx_Select env (calls s) (OnDb (db (uow s))) dest query args),
           record_call (OnDb (db (uow s))) (SelectC dest query args) s))"

definition NamedQuery :: "sqlx \<Rightarrow> string \<Rightarrow> iface \<Rightarrow> world \<Rightarrow> (rows \<times> error option) outcome \<times> world" where
  "NamedQuery env query arg s =
     (case tx (uow s) of
        Some h \<Rightarrow>
          (Returned (sqlx_NamedQuery env (calls s) (OnTx h) query arg),
           record_call (OnTx h) (NamedQueryC query arg) s)
      | None \<Rightarrow>
          (Returned (sqlx_NamedQuery env (calls s) (OnDb (db (uow s))) query arg),
           record_call (OnDb (db (uow s))) (NamedQueryC query arg) s))"

definition MustExec :: "sqlx \<Rightarrow> string \<Rightarrow> iface list \<Rightarrow> world \<Rightarrow> sql_Result outcome \<times> world" where
  "MustExec env query args s =
     (case tx (uow s) of
        Some h \<Rightarrow>
          (case sqlx_MustExec env (calls s) (OnTx h) query args of
             Inl p \<Rightarrow> (Panicked p, record_call (OnTx h) (MustExecC query args) s)
           | Inr res \<Rightarrow> (Returned res, record_call (OnTx h) (MustExecC query args) s))
      | None \<Rightarrow>
          (case sqlx_MustExec env (calls s) (OnDb (db (uow s))) query args of
             Inl p \<Rightarrow> (Panicked p, record_call (OnDb (db (uow s))) (MustExecC query args) s)
           | Inr res \<Rightarrow>
               (Returned res, record_call (OnDb (db (uow s))) (MustExecC query args) s)))"

definition Get :: "sqlx \<Rightarrow> iface \<Rightarrow> string \<Rightarrow> iface list \<Rightarrow> world \<Rightarrow> error option outcome \<times> world" where
  "Get env dest query args s =
     (case tx (uow s) of
        Some h \<Rightarrow>
          (Returned (sqlx_Get env (calls s) (OnTx h) dest query args),
           record_call (OnTx h) (GetC dest query args) s)
      | None \<Rightarrow>
          (Returned (sqlx_Get env (calls s) (OnDb (db (uow s))) dest query args),
           record_call (OnDb (db (uow s))) (GetC dest query args) s))"

section \<open>The transaction lifecycle\<close>

text \<open>
  \<open>begin\<close>: the assignment to \<open>u.tx\<close> happens only when \<open>MustBegin\<close> returns; a nil handle
  is stored before the check panics.
\<close>

definition begin_tx :: "sqlx \<Rightarrow> world \<Rightarrow> unit outcome \<times> world" where
  "begin_tx env s =
     (case sqlx_MustBegin env (calls s) (db (uow s)) of
        Inl p \<Rightarrow> (Panicked p, record_call (OnDb (db (uow s))) MustBeginC s)
      | Inr t \<Rightarrow>
          (let s' = (record_call (OnDb (db (uow s))) MustBeginC s)\<lparr>uow := (uow s)\<lparr>tx := t\<rparr>\<rparr>
           in if t = None then (Panicked (PanicErr noTransactionMsg), s')
              else (Returned (), s')))"

definition Commit :: "sqlx \<Rightarrow> world \<Rightarrow> error option outcome \<times> world" where
  "Commit env s =
     (case tx (uow s) of
        None \<Rightarrow> (Panicked (PanicErr noTransactionMsg), s)
      | Some h \<Rightarrow>
          (case sqlx_Commit env (calls s) h of
             Some e \<Rightarrow>
               (Returned (Some e), (record_call (OnTx h) CommitC s)\<lparr>uow := (uow s)\<lparr>tx := None\<rparr>\<rparr>)
           | None \<Rightarrow>
               (Returned None, (record_call (OnTx h) CommitC s)\<lparr>uow := (uow s)\<lparr>tx := None\<rparr>\<rparr>)))"

definition Rollback :: "sqlx \<Rightarrow> world \<Rightarrow> error option outcome \<times> world" where
  "Rollback env s =
     (case tx (uow s) of
        None \<Rightarrow> (Panicked (PanicErr noTransactionMsg), s)
      | Some h \<Rightarrow>
          (case sqlx_Rollback env (calls s) h of
             Some e \<Rightarrow>
               (Returned (Some e), (record_call (OnTx h) RollbackC s)\<lparr>uow := (uow s)\<lparr>tx := None\<rparr>\<rparr>)
           | None \<Rightarrow>
               (Returned None, (record_call (OnTx h) RollbackC s)\<lparr>uow := (uow s)\<lparr>tx := None\<rparr>\<rparr>)))"

text \<open>
  The body of the \<open>if\<close> in the deferred function of \<open>InTransaction\<close>, run for the
  recovered \<open>r\<close>: \<open>log.Println(u.Rollback()); panic(r)\<close>. A panic of \<open>Rollback\<close> itself
  leaves the deferred function before \<open>panic(r)\<close> is reached and is the panic the caller
  sees. The result is the panic that leaves \<open>InTransaction\<close>.
\<close>

definition recovered :: "sqlx \<Rightarrow> panic_val \<Rightarrow> world \<Rightarrow> panic_val \<times> world" where
  "recovered env r s =
     (case Rollback env s of
        (Panicked q, s') \<Rightarrow> (q, s')
      | (Returned e, s') \<Rightarrow> (r, Println e s'))"

text \<open>
  The deferred function of \<open>InTransaction\<close> while a panic is running and \<open>recover()\<close>
  answers \<open>r\<close>: \<open>if r := recover(); r != nil { ... }\<close>. For a non-nil \<open>r\<close> a panic leaves
  \<open>InTransaction\<close>. For a nil \<open>r\<close> the body is skipped; \<open>recover()\<close> has stopped the
  panic, so \<open>InTransaction\<close> returns, with the zero values \<open>(nil, nil)\<close> of its unnamed
  results.
\<close>

definition deferred ::
  "sqlx \<Rightarrow> panic_val \<Rightarrow> world \<Rightarrow> (iface \<times> error option) outcome \<times> world" where
  "deferred env r s =
     (if r \<noteq> PanicVal INil
      then (case recovered env r s of (q, s') \<Rightarrow> (Panicked q, s'))
      else (Returned (INil, None), s))"

text \<open>
  \<open>InTransaction\<close>. The work function \<open>contextOver\<close> receives the instance itself, so it is
  a function on the state: it may call any method of the interface on \<open>u\<close>. A panic of
  \<open>begin\<close> happens before the \<open>defer\<close> statement. After that, a panic of the work
  function, of \<open>Commit\<close> or of \<open>Rollback\<close> runs the deferred function with that panic;
  on a normal return \<open>recover()\<close> is nil and the deferred function does nothing.
\<close>

definition InTransaction ::
  "sqlx \<Rightarrow> (world \<Rightarrow> (iface \<times> error option) outcome \<times> world) \<Rightarrow> world
     \<Rightarrow> (iface \<times> error option) outcome \<times> world" where
  "InTransaction env contextOver s =
     (case begin_tx env s of
        (Panicked p, s1) \<Rightarrow> (Panicked p, s1)
      | (Returned _, s1) \<Rightarrow>
          (case contextOver s1 of
             (Panicked r, s2) \<Rightarrow> deferred env r s2
           | (Returned (result, e), s2) \<Rightarrow>
               (case (if e = None then Commit env s2 else Rollback env s2) of
                  (Panicked r, s3) \<Rightarrow> deferred env r s3
                | (Returned e', s3) \<Rightarrow> (Returned (result, e), Println e' s3))))"


section \<open>Recording fakes and work functions\<close>

text \<open>
  Two fakes of the collaborator. \<open>fakeSqlx\<close> succeeds at everything and hands out, as the
  handle of a new transaction, one more than the number of calls recorded so far.
  \<open>failingSqlx\<close> begins transactions in the same way and fails at everything else.
\<close>

definition fakeSqlx :: sqlx where
  "fakeSqlx =
     \<lparr>sqlx_NamedExec = (\<lambda>es t q a. (DriverResult 1, None)),
      sqlx_Queryx = (\<lambda>es t q args. (Some 1, None)),
      sqlx_Select = (\<lambda>es t d q args. None),
      sqlx_NamedQuery = (\<lambda>es t q a. (Some 1, None)),
      sqlx_MustExec = (\<lambda>es t q args. Inr (DriverResult 1)),
      sqlx_Get = (\<lambda>es t d q args. None),
      sqlx_MustBegin = (\<lambda>es d. Inr (Some (Suc (length es)))),
      sqlx_Commit = (\<lambda>es h. None),
      sqlx_Rollback = (\<lambda>es h. None)\<rparr>"

definition failingSqlx :: sqlx where
  "failingSqlx =
     \<lparr>sqlx_NamedExec = (\<lambda>es t q a. (NilResult, Some ''duplicate key'')),
      sqlx_Queryx = (\<lambda>es t q args. (None, Some ''bad statement'')),
      sqlx_Select = (\<lambda>es t d q args. Some ''bad statement''),
      sqlx_NamedQuery = (\<lambda>es t q a. (None, Some ''bad statement'')),
      sqlx_MustExec = (\<lambda>es t q args. Inl (PanicErr ''bad statement'')),
      sqlx_Get = (\<lambda>es t d q args. Some ''no rows''),
      sqlx_MustBegin = (\<lambda>es d. Inr (Some (Suc (length es)))),
      sqlx_Commit = (\<lambda>es h. Some ''commit failed''),
      sqlx_Rollback = (\<lambda>es h. Some ''rollback failed'')\<rparr>"

text \<open>An instance as \<open>NewUnitOfWork\<close> builds it, before any call.\<close>

definition fresh :: "nat \<Rightarrow> nat option \<Rightarrow> world" where
  "fresh d t = \<lparr>uow = NewUnitOfWork d t, calls = [], printed = []\<rparr>"

text \<open>
  Work functions, each a Go closure over the interface value it is given:
  \<^item> \<open>work_inserts\<close>: \<open>db.MustNamedExec(...); db.MustNamedExec(...); return 2, nil\<close>
  \<^item> \<open>work_rejects\<close>: \<open>db.MustNamedExec(...); return nil, errors.New("rejected")\<close>
  \<^item> \<open>work_panics\<close>: \<open>db.MustNamedExec(...); panic("boom")\<close>
  \<^item> \<open>work_commits\<close>: \<open>db.Commit(); return 1, nil\<close>
  \<^item> \<open>work_rolls_back\<close>: \<open>db.Rollback(); return nil, errors.New("rejected")\<close>
  \<^item> \<open>work_rolls_back_panics\<close>: \<open>db.Rollback(); panic("boom")\<close>
  \<^item> \<open>work_reports_commit\<close>: \<open>err := db.Commit(); return nil, err\<close>
\<close>

definition work_inserts :: "sqlx \<Rightarrow> world \<Rightarrow> (iface \<times> error option) outcome \<times> world" where
  "work_inserts env s =
     (case MustNamedExec env ''insert into a'' (IInt 1) s of
        (Panicked p, s1) \<Rightarrow> (Panicked p, s1)
      | (Returned _, s1) \<Rightarrow>
          (case MustNamedExec env ''insert into b'' (IInt 2) s1 of
             (Panicked p, s2) \<Rightarrow> (Panicked p, s2)
           | (Returned _, s2) \<Rightarrow> (Returned (IInt 2, None), s2)))"

definition work_rejects :: "sqlx \<Rightarrow> world \<Rightarrow> (iface \<times> error option) outcome \<times> world" where
  "work_rejects env s =
     (case MustNamedExec env ''insert into a'' (IInt 1) s of
        (Panicked p, s1) \<Rightarrow> (Panicked p, s1)
      | (Returned _, s1) \<Rightarrow> (Returned (INil, Some ''rejected''), s1))"

definition work_panics :: "sqlx \<Rightarrow> world \<Rightarrow> (iface \<times> error option) outcome \<times> world" where
  "work_panics env s =
     (case MustNamedExec env ''insert into a'' (IInt 1) s of
        (Panicked p, s1) \<Rightarrow> (Panicked p, s1)
      | (Returned _, s1) \<Rightarrow> (Panicked (PanicVal (IStr ''boom'')), s1))"

definition work_commits :: "sqlx \<Rightarrow> world \<Rightarrow> (iface \<times> error option) outcome \<times> world" where
  "work_commits env s =
     (case Commit env s of
        (Panicked p, s1) \<Rightarrow> (Panicked p, s1)
      | (Returned _, s1) \<Rightarrow> (Returned (IInt 1, None), s1))"

definition work_rolls_back :: "sqlx \<Rightarrow> world \<Rightarrow> (iface \<times> error option) outcome \<times> world" where
  "work_rolls_back env s =
     (case Rollback env s of
        (Panicked p, s1) \<Rightarrow> (Panicked p, s1)
      | (Returned _, s1) \<Rightarrow> (Returned (INil, Some ''rejected''), s1))"

definition work_rolls_back_panics :: "sqlx \<Rightarrow> world \<Rightarrow> (iface \<times> error option) outcome \<times> world" where
  "work_rolls_back_panics env s =
     (case Rollback env s of
        (Panicked p, s1) \<Rightarrow> (Panicked p, s1)
      | (Returned _, s1) \<Rightarrow> (Panicked (PanicVal (IStr ''boom'')), s1))"

definition work_reports_commit :: "sqlx \<Rightarrow> world \<Rightarrow> (iface \<times> error option) outcome \<times> world" where
  "work_reports_commit env s =
     (case Commit env s of
        (Panicked p, s1) \<Rightarrow> (Panicked p, s1)
      | (Returned e, s1) \<Rightarrow> (Returned (INil, e), s1))"

section \<open>Facts about the lifecycle operations\<close>

lemma Commit_active:
  "tx (uow s) = Some h \<Longrightarrow>
   Commit env s =
     (Returned (sqlx_Commit env (calls s) h),
      s\<lparr>uow := (uow s)\<lparr>tx := None\<rparr>, calls := calls s @ [Event (OnTx h) CommitC]\<rparr>)"
  by (simp add: Commit_def record_call_def split: option.split)

lemma Rollback_active:
  "tx (uow s) = Some h \<Longrightarrow>
   Rollback env s =
     (Returned (sqlx_Rollback env (calls s) h),
      s\<lparr>uow := (uow s)\<lparr>tx := None\<rparr>, calls := calls s @ [Event (OnTx h) RollbackC]\<rparr>)"
  by (simp add: Rollback_def record_call_def split: option.split)

lemma Commit_idle:
  "tx (uow s) = None \<Longrightarrow> Commit env s = (Panicked (PanicErr noTransactionMsg), s)"
  by (simp add: Commit_def)

lemma Rollback_idle:
  "tx (uow s) = None \<Longrightarrow> Rollback env s = (Panicked (PanicErr noTransactionMsg), s)"
  by (simp add: Rollback_def)

lemma recovered_active:
  "tx (uow s) = Some h \<Longrightarrow>
   recovered env r s =
     (r, s\<lparr>uow := (uow s)\<lparr>tx := None\<rparr>, calls := calls s @ [Event (OnTx h) RollbackC],
           printed := printed s @ [sqlx_Rollback env (calls s) h]\<rparr>)"
  by (simp add: recovered_def Rollback_active Println_def)

lemma recovered_idle:
  "tx (uow s) = None \<Longrightarrow> recovered env r s = (PanicErr noTransactionMsg, s)"
  by (simp add: recovered_def Rollback_idle)

lemma deferred_active:
  "r \<noteq> PanicVal INil \<Longrightarrow> tx (uow s) = Some h \<Longrightarrow>
   deferred env r s =
     (Panicked r,
      s\<lparr>uow := (uow s)\<lparr>tx := None\<rparr>, calls := calls s @ [Event (OnTx h) RollbackC],
        printed := printed s @ [sqlx_Rollback env (calls s) h]\<rparr>)"
  by (simp add: deferred_def recovered_active)

lemma deferred_idle:
  "r \<noteq> PanicVal INil \<Longrightarrow> tx (uow s) = None \<Longrightarrow>
   deferred env r s = (Panicked (PanicErr noTransactionMsg), s)"
  by (simp add: deferred_def recovered_idle)

lemma deferred_nil:
  "deferred env (PanicVal INil) s = (Returned (INil, None), s)"
  by (simp add: deferred_def)

lemma InTransaction_settles:
  assumes "begin_tx env s = (Returned (), s1)"
    and "contextOver s1 = (Returned (v, e), s2)"
    and "tx (uow s2) = Some h"
  shows "InTransaction env contextOver s =
           (Returned (v, e),
            s2\<lparr>uow := (uow s2)\<lparr>tx := None\<rparr>,
               calls := calls s2 @ [Event (OnTx h) (if e = None then CommitC else RollbackC)],
               printed := printed s2 @
                 [if e = None then sqlx_Commit env (calls s2) h
                  else sqlx_Rollback env (calls s2) h]\<rparr>)"
  using assms
  by (simp add: InTransaction_def Commit_active Rollback_active Println_def)

lemma InTransaction_work_panics:
  assumes "begin_tx env s = (Returned (), s1)"
    and "contextOver s1 = (Panicked r, s2)"
  shows "InTransaction env contextOver s = deferred env r s2"
  using assms by (simp add: InTransaction_def)

lemma InTransaction_Returned_is_work_pair:
  assumes "begin_tx env s = (Returned (), s1)"
    and "contextOver s1 = (Returned q, s2)"
    and "InTransaction env contextOver s = (Returned p, s')"
  shows "p = q"
proof -
  obtain v e where q: "q = (v, e)" by (cases q)
  show ?thesis
  proof (cases "tx (uow s2)")
    case None
    with assms q show ?thesis
      by (simp add: InTransaction_def Commit_idle Rollback_idle deferred_idle split: if_splits)
  next
    case (Some h)
    with assms q show ?thesis
      using InTransaction_settles [of env s s1 contextOver v e s2 h] by simp
  qed
qed

lemma InTransaction_swallows_nil_panic:
  assumes "begin_tx env s = (Returned (), s1)"
    and "contextOver s1 = (Panicked (PanicVal INil), s2)"
  shows "InTransaction env contextOver s = (Returned (INil, None), s2)"
  using assms by (simp add: InTransaction_def deferred_nil)

lemma begin_tx_granted:
  "sqlx_MustBegin env (calls s) (db (uow s)) = Inr (Some h) \<Longrightarrow>
   begin_tx env s =
     (Returned (),
      s\<lparr>uow := (uow s)\<lparr>tx := Some h\<rparr>, calls := calls s @ [Event (OnDb (db (uow s))) MustBeginC]\<rparr>)"
  by (simp add: begin_tx_def record_call_def)

lemma begin_tx_ignores_tx:
  "fst (begin_tx env (s\<lparr>uow := (uow s)\<lparr>tx := t\<rparr>\<rparr>)) = fst (begin_tx env s)"
  by (simp add: begin_tx_def record_call_def Let_def split: sum.split)

lemma begin_tx_db:
  "db (uow (snd (begin_tx env s))) = db (uow s)"
  by (simp add: begin_tx_def record_call_def Let_def split: sum.split)

lemma Commit_db:
  "db (uow (snd (Commit env s))) = db (uow s)"
  by (simp add: Commit_def record_call_def split: option.split)

lemma Rollback_db:
  "db (uow (snd (Rollback env s))) = db (uow s)"
  by (simp add: Rollback_def record_call_def split: option.split)


section \<open>Dispatch and frame of the query and exec operations\<close>

lemma MustNamedExec_routed:
  assumes "t = (case tx (uow s) of Some h \<Rightarrow> OnTx h | None \<Rightarrow> OnDb (db (uow s)))"
  shows "MustNamedExec env q a s =
           ((case sqlx_NamedExec env (calls s) t q a of
               (res, Some e) \<Rightarrow> Returned (ResultSetPtr \<lparr>rowsAffected = 0, err = Some e\<rparr>)
             | (res, None) \<Rightarrow> Returned res),
            record_call t (NamedExecC q a) s)"
  using assms by (simp add: MustNamedExec_def split: option.split prod.split)

lemma Query_routed:
  assumes "t = (case tx (uow s) of Some h \<Rightarrow> OnTx h | None \<Rightarrow> OnDb (db (uow s)))"
  shows "Query env q args s =
           (Returned (sqlx_Queryx env (calls s) t q args), record_call t (QueryxC q args) s)"
  using assms by (simp add: Query_def split: option.split)

lemma Select_routed:
  assumes "t = (case tx (uow s) of Some h \<Rightarrow> OnTx h | None \<Rightarrow> OnDb (db (uow s)))"
  shows "Select env d q args s =
           (Returned (sqlx_Select env (calls s) t d q args), record_call t (SelectC d q args) s)"
  using assms by (simp add: Select_def split: option.split)

lemma NamedQuery_routed:
  assumes "t = (case tx (uow s) of Some h \<Rightarrow> OnTx h | None \<Rightarrow> OnDb (db (uow s)))"
  shows "NamedQuery env q a s =
           (Returned (sqlx_NamedQuery env (calls s) t q a), record_call t (NamedQueryC q a) s)"
  using assms by (simp add: NamedQuery_def split: option.split)

lemma MustExec_routed:
  assumes "t = (case tx (uow s) of Some h \<Rightarrow> OnTx h | None \<Rightarrow> OnDb (db (uow s)))"
  shows "MustExec env q args s =
           ((case sqlx_MustExec env (calls s) t q args of
               Inl p \<Rightarrow> Panicked p | Inr res \<Rightarrow> Returned res),
            record_call t (MustExecC q args) s)"
  using assms by (simp add: MustExec_def split: option.split sum.split)

lemma Get_routed:
  assumes "t = (case tx (uow s) of Some h \<Rightarrow> OnTx h | None \<Rightarrow> OnDb (db (uow s)))"
  shows "Get env d q args s =
           (Returned (sqlx_Get env (calls s) t d q args), record_call t (GetC d q args) s)"
  using assms by (simp add: Get_def split: option.split)

lemma record_call_uow: "uow (record_call t c s) = uow s"
  by (simp add: record_call_def)

lemma record_call_calls: "calls (record_call t c s) = calls s @ [Event t c]"
  by (simp add: record_call_def)

text \<open>
  C1. Each of the six query and exec operations makes exactly one call on the collaborator.
  When the instance holds a transaction handle \<open>h\<close> the call is made on \<open>h\<close>, and what the
  operation answers is what \<open>h\<close> answered; when the transaction reference is nil the call is
  made on the connection \<open>u.db\<close>, and the answer is the connection's.
\<close>

theorem dispatch_rule:
  "(tx (uow s) = Some h \<longrightarrow>
      calls (snd (MustNamedExec env q a s)) = calls s @ [Event (OnTx h) (NamedExecC q a)] \<and>
      fst (MustNamedExec env q a s) =
        (case sqlx_NamedExec env (calls s) (OnTx h) q a of
           (res, Some e) \<Rightarrow> Returned (ResultSetPtr \<lparr>rowsAffected = 0, err = Some e\<rparr>)
         | (res, None) \<Rightarrow> Returned res) \<and>
      Query env q args s =
        (Returned (sqlx_Queryx env (calls s) (OnTx h) q args),
         record_call (OnTx h) (QueryxC q args) s) \<and>
      Select env d q args s =
        (Returned (sqlx_Select env (calls s) (OnTx h) d q args),
         record_call (OnTx h) (SelectC d q args) s) \<and>
      NamedQuery env q a s =
        (Returned (sqlx_NamedQuery env (calls s) (OnTx h) q a),
         record_call (OnTx h) (NamedQueryC q a) s) \<and>
      calls (snd (MustExec env q args s)) = calls s @ [Event (OnTx h) (MustExecC q args)] \<and>
      fst (MustExec env q args s) =
        (case sqlx_MustExec env (calls s) (OnTx h) q args of
           Inl p \<Rightarrow> Panicked p | Inr res \<Rightarrow> Returned res) \<and>
      Get env d q args s =
        (Returned (sqlx_Get env (calls s) (OnTx h) d q args),
         record_call (OnTx h) (GetC d q args) s)) \<and>
   (tx (uow s) = None \<longrightarrow>
      calls (snd (MustNamedExec env q a s)) =
        calls s @ [Event (OnDb (db (uow s))) (NamedExecC q a)] \<and>
      fst (MustNamedExec env q a s) =
        (case sqlx_NamedExec env (calls s) (OnDb (db (uow s))) q a of
           (res, Some e) \<Rightarrow> Returned (ResultSetPtr \<lparr>rowsAffected = 0, err = Some e\<rparr>)
         | (res, None) \<Rightarrow> Returned res) \<and>
      Query env q args s =
        (Returned (sqlx_Queryx env (calls s) (OnDb (db (uow s))) q args),
         record_call (OnDb (db (uow s))) (QueryxC q args) s) \<and>
      Select env d q args s =
        (Returned (sqlx_Select env (calls s) (OnDb (db (uow s))) d q args),
         record_call (OnDb (db (uow s))) (SelectC d q args) s) \<and>
      NamedQuery env q a s =
        (Returned (sqlx_NamedQuery env (calls s) (OnDb (db (uow s))) q a),
         record_call (OnDb (db (uow s))) (NamedQueryC q a) s) \<and>
      calls (snd (MustExec env q args s)) =
        calls s @ [Event (OnDb (db (uow s))) (MustExecC q args)] \<and>
      fst (MustExec env q args s) =
        (case sqlx_MustExec env (calls s) (OnDb (db (uow s))) q args of
           Inl p \<Rightarrow> Panicked p | Inr res \<Rightarrow> Returned res) \<and>
      Get env d q args s =
        (Returned (sqlx_Get env (calls s) (OnDb (db (uow s))) d q args),
         record_call (OnDb (db (uow s))) (GetC d q args) s))"
proof (intro conjI impI)
  assume active: "tx (uow s) = Some h"
  then have t: "OnTx h = (case tx (uow s) of Some h \<Rightarrow> OnTx h | None \<Rightarrow> OnDb (db (uow s)))"
    by simp
  show "calls (snd (MustNamedExec env q a s)) = calls s @ [Event (OnTx h) (NamedExecC q a)]"
    by (simp add: MustNamedExec_routed [OF t] record_call_calls)
  show "fst (MustNamedExec env q a s) =
        (case sqlx_NamedExec env (calls s) (OnTx h) q a of
           (res, Some e) \<Rightarrow> Returned (ResultSetPtr \<lparr>rowsAffected = 0, err = Some e\<rparr>)
         | (res, None) \<Rightarrow> Returned res)"
    by (simp add: MustNamedExec_routed [OF t])
  show "Query env q args s =
        (Returned (sqlx_Queryx env (calls s) (OnTx h) q args),
         record_call (OnTx h) (QueryxC q args) s)"
    by (rule Query_routed [OF t])
  show "Select env d q args s =
        (Returned (sqlx_Select env (calls s) (OnTx h) d q args),
         record_call (OnTx h) (SelectC d q args) s)"
    by (rule Select_routed [OF t])
  show "NamedQuery env q a s =
        (Returned (sqlx_NamedQuery env (calls s) (OnTx h) q a),
         record_call (OnTx h) (NamedQueryC q a) s)"
    by (rule NamedQuery_routed [OF t])
  show "calls (snd (MustExec env q args s)) = calls s @ [Event (OnTx h) (MustExecC q args)]"
    by (simp add: MustExec_routed [OF t] record_call_calls)
  show "fst (MustExec env q args s) =
        (case sqlx_MustExec env (calls s) (OnTx h) q args of
           Inl p \<Rightarrow> Panicked p | Inr res \<Rightarrow> Returned res)"
    by (simp add: MustExec_routed [OF t])
  show "Get env d q args s =
        (Returned (sqlx_Get env (calls s) (OnTx h) d q args),
         record_call (OnTx h) (GetC d q args) s)"
    by (rule Get_routed [OF t])
next
  assume idle: "tx (uow s) = None"
  then have t: "OnDb (db (uow s)) =
      (case tx (uow s) of Some h \<Rightarrow> OnTx h | None \<Rightarrow> OnDb (db (uow s)))"
    by simp
  show "calls (snd (MustNamedExec env q a s)) =
        calls s @ [Event (OnDb (db (uow s))) (NamedExecC q a)]"
    by (simp add: MustNamedExec_routed [OF t] record_call_calls)
  show "fst (MustNamedExec env q a s) =
        (case sqlx_NamedExec env (calls s) (OnDb (db (uow s))) q a of
           (res, Some e) \<Rightarrow> Returned (ResultSetPtr \<lparr>rowsAffected = 0, err = Some e\<rparr>)
         | (res, None) \<Rightarrow> Returned res)"
    by (simp add: MustNamedExec_routed [OF t])
  show "Query env q args s =
        (Returned (sqlx_Queryx env (calls s) (OnDb (db (uow s))) q args),
         record_call (OnDb (db (uow s))) (QueryxC q args) s)"
    by (rule Query_routed [OF t])
  show "Select env d q args s =
        (Returned (sqlx_Select env (calls s) (OnDb (db (uow s))) d q args),
         record_call (OnDb (db (uow s))) (SelectC d q args) s)"
    by (rule Select_routed [OF t])
  show "NamedQuery env q a s =
        (Returned (sqlx_NamedQuery env (calls s) (OnDb (db (uow s))) q a),
         record_call (OnDb (db (uow s))) (NamedQueryC q a) s)"
    by (rule NamedQuery_routed [OF t])
  show "calls (snd (MustExec env q args s)) =
        calls s @ [Event (OnDb (db (uow s))) (MustExecC q args)]"
    by (simp add: MustExec_routed [OF t] record_call_calls)
  show "fst (MustExec env q args s) =
        (case sqlx_MustExec env (calls s) (OnDb (db (uow s))) q args of
           Inl p \<Rightarrow> Panicked p | Inr res \<Rightarrow> Returned res)"
    by (simp add: MustExec_routed [OF t])
  show "Get env d q args s =
        (Returned (sqlx_Get env (calls s) (OnDb (db (uow s))) d q args),
         record_call (OnDb (db (uow s))) (GetC d q args) s)"
    by (rule Get_routed [OF t])
qed

text \<open>
  Witness of C1: inside a transaction with handle 7 on connection 3, a \<open>Get\<close> is recorded on
  the transaction; with no transaction, a \<open>Query\<close> is recorded on connection 3.
\<close>

theorem dispatch_rule_witness:
  "tx (uow (fresh 3 (Some 7))) = Some 7 \<and>
   calls (snd (Get fakeSqlx (IStr ''dest'') ''select 1'' [] (fresh 3 (Some 7)))) =
     [Event (OnTx 7) (GetC (IStr ''dest'') ''select 1'' [])] \<and>
   tx (uow (fresh 3 None)) = None \<and>
   calls (snd (Query fakeSqlx ''select 1'' [] (fresh 3 None))) =
     [Event (OnDb 3) (QueryxC ''select 1'' [])]"
proof -
  have a: "tx (uow (fresh 3 (Some 7))) = Some 7"
    by (simp add: fresh_def NewUnitOfWork_def)
  have i: "tx (uow (fresh 3 None)) = None"
    by (simp add: fresh_def NewUnitOfWork_def)
  have "Get fakeSqlx (IStr ''dest'') ''select 1'' [] (fresh 3 (Some 7)) =
        (Returned (sqlx_Get fakeSqlx (calls (fresh 3 (Some 7))) (OnTx 7) (IStr ''dest'') ''select 1'' []),
         record_call (OnTx 7) (GetC (IStr ''dest'') ''select 1'' []) (fresh 3 (Some 7)))"
    using dispatch_rule [of "fresh 3 (Some 7)" 7 fakeSqlx "''select 1''" INil "[]" "IStr ''dest''"] a
    by blast
  moreover have "Query fakeSqlx ''select 1'' [] (fresh 3 None) =
        (Returned (sqlx_Queryx fakeSqlx (calls (fresh 3 None)) (OnDb (db (uow (fresh 3 None)))) ''select 1'' []),
         record_call (OnDb (db (uow (fresh 3 None)))) (QueryxC ''select 1'' []) (fresh 3 None))"
    using dispatch_rule [of "fresh 3 None" 0 fakeSqlx "''select 1''" INil "[]" INil] i
    by blast
  ultimately show ?thesis
    using a i by (simp add: record_call_def fresh_def NewUnitOfWork_def)
qed

lemma recovered_db:
  "db (uow (snd (recovered env r s))) = db (uow s)"
proof (cases "tx (uow s)")
  case None
  then show ?thesis by (simp add: recovered_idle)
next
  case (Some h)
  then show ?thesis by (simp add: recovered_active)
qed

lemma deferred_db:
  "db (uow (snd (deferred env r s))) = db (uow s)"
  using recovered_db [of env r s]
  by (auto simp add: deferred_def split: prod.split)

lemma Println_uow: "uow (Println e s) = uow s"
  by (simp add: Println_def)

lemma InTransaction_db:
  assumes work: "\<forall>s1. db (uow (snd (contextOver s1))) = db (uow s1)"
  shows "db (uow (snd (InTransaction env contextOver s))) = db (uow s)"
proof (cases "begin_tx env s")
  case (Pair o1 s1)
  have d1: "db (uow s1) = db (uow s)"
    using begin_tx_db [of env s] Pair by simp
  show ?thesis
  proof (cases o1)
    case (Panicked p)
    with Pair d1 show ?thesis by (simp add: InTransaction_def)
  next
    case (Returned x)
    show ?thesis
    proof (cases "contextOver s1")
      case work_result: (Pair o2 s2)
      have d2: "db (uow s2) = db (uow s)"
        using work [rule_format, of s1] work_result d1 by simp
      show ?thesis
      proof (cases o2)
        case (Panicked r)
        have "db (uow (snd (deferred env r s2))) = db (uow s)"
          using deferred_db [of env r s2] d2 by simp
        with Pair Returned work_result Panicked show ?thesis
          by (auto simp add: InTransaction_def split: prod.split)
      next
        case returned: (Returned ve)
        obtain v e where ve: "ve = (v, e)" by (cases ve)
        obtain o3 s3 where settle:
          "(if e = None then Commit env s2 else Rollback env s2) = (o3, s3)"
          by (cases "if e = None then Commit env s2 else Rollback env s2")
        have d3: "db (uow s3) = db (uow s)"
          using Commit_db [of env s2] Rollback_db [of env s2] settle d2
          by (simp split: if_splits)
        show ?thesis
        proof (cases o3)
          case (Panicked r)
          have "db (uow (snd (deferred env r s3))) = db (uow s)"
            using deferred_db [of env r s3] d3 by simp
          with Pair Returned work_result returned ve settle Panicked show ?thesis
            by (auto simp add: InTransaction_def split: prod.split)
        next
          case (Returned e')
          with Pair \<open>o1 = Returned x\<close> work_result returned ve settle d3 show ?thesis
            by (simp add: InTransaction_def Println_uow)
        qed
      qed
    qed
  qed
qed

text \<open>
  C10. None of the six query and exec operations changes the instance: after the call,
  whether it returned or panicked, \<open>u.db\<close> and \<open>u.tx\<close> are what they were. The connection
  reference is not changed by \<open>begin\<close>, \<open>Commit\<close> and \<open>Rollback\<close> either, nor by
  \<open>InTransaction\<close> around a work function that does not change it.
\<close>

theorem query_operations_frame:
  "uow (snd (MustNamedExec env q a s)) = uow s \<and>
   uow (snd (Query env q args s)) = uow s \<and>
   uow (snd (Select env d q args s)) = uow s \<and>
   uow (snd (NamedQuery env q a s)) = uow s \<and>
   uow (snd (MustExec env q args s)) = uow s \<and>
   uow (snd (Get env d q args s)) = uow s \<and>
   db (uow (snd (begin_tx env s))) = db (uow s) \<and>
   db (uow (snd (Commit env s))) = db (uow s) \<and>
   db (uow (snd (Rollback env s))) = db (uow s) \<and>
   ((\<forall>s1. db (uow (snd (contextOver s1))) = db (uow s1)) \<longrightarrow>
      db (uow (snd (InTransaction env contextOver s))) = db (uow s))"
proof -
  define t where "t = (case tx (uow s) of Some h \<Rightarrow> OnTx h | None \<Rightarrow> OnDb (db (uow s)))"
  have "uow (snd (MustNamedExec env q a s)) = uow s"
    by (simp add: MustNamedExec_routed [OF t_def] record_call_uow)
  moreover have "uow (snd (Query env q args s)) = uow s"
    by (simp add: Query_routed [OF t_def] record_call_uow)
  moreover have "uow (snd (Select env d q args s)) = uow s"
    by (simp add: Select_routed [OF t_def] record_call_uow)
  moreover have "uow (snd (NamedQuery env q a s)) = uow s"
    by (simp add: NamedQuery_routed [OF t_def] record_call_uow)
  moreover have "uow (snd (MustExec env q args s)) = uow s"
    by (simp add: MustExec_routed [OF t_def] record_call_uow)
  moreover have "uow (snd (Get env d q args s)) = uow s"
    by (simp add: Get_routed [OF t_def] record_call_uow)
  ultimately show ?thesis
    using begin_tx_db [of env s] Commit_db [of env s] Rollback_db [of env s]
      InTransaction_db [of contextOver env s]
    by blast
qed

text \<open>
  Witness of C10: the work function with two inserts leaves the connection reference alone,
  and so does \<open>InTransaction\<close> around it.
\<close>

theorem query_operations_frame_witness:
  "(\<forall>s1. db (uow (snd (work_inserts fakeSqlx s1))) = db (uow s1)) \<and>
   db (uow (snd (InTransaction fakeSqlx (work_inserts fakeSqlx) (fresh 3 None)))) = 3"
proof -
  have w: "\<forall>s1. db (uow (snd (work_inserts fakeSqlx s1))) = db (uow s1)"
    by (simp add: work_inserts_def MustNamedExec_def record_call_def fakeSqlx_def
        split: option.split)
  have "db (uow (fresh 3 None)) = 3"
    by (simp add: fresh_def NewUnitOfWork_def)
  with w show ?thesis
    using query_operations_frame
      [of fakeSqlx "[]" INil "fresh 3 None" "[]" INil "work_inserts fakeSqlx"]
    by simp
qed

section \<open>The result adapter of a failed named execute\<close>

text \<open>
  C8. Let \<open>t\<close> be the handle the call is made on. When its \<open>NamedExec\<close> answers the error
  \<open>e\<close>, \<open>MustNamedExec\<close> returns (it does not panic) a \<open>*resultSet\<close> whose \<open>RowsAffected\<close>
  is \<open>(0, e)\<close>, with \<open>e\<close> non-nil; \<open>RowsAffected\<close> is a function of the value alone, so
  every call answers the same. When \<open>NamedExec\<close> answers a nil error, the result it
  produced is returned as it is.
\<close>

theorem MustNamedExec_result_adapter:
  assumes "t = (case tx (uow s) of Some h \<Rightarrow> OnTx h | None \<Rightarrow> OnDb (db (uow s)))"
  shows "(sqlx_NamedExec env (calls s) t q a = (res, Some e) \<longrightarrow>
            (\<exists>r. fst (MustNamedExec env q a s) = Returned (ResultSetPtr r) \<and>
                 RowsAffected r = (0, Some e) \<and> snd (RowsAffected r) \<noteq> None)) \<and>
         (sqlx_NamedExec env (calls s) t q a = (res, None) \<longrightarrow>
            fst (MustNamedExec env q a s) = Returned res)"
  by (simp add: MustNamedExec_routed [OF assms] RowsAffected_def)

text \<open>
  Witness of C8: the failing fake inside transaction 7 gives the adapter for
  \<open>duplicate key\<close>; the succeeding fake on the connection gives the driver's result.
\<close>

theorem MustNamedExec_result_adapter_witness:
  "sqlx_NamedExec failingSqlx [] (OnTx 7) ''insert into a'' (IInt 1) =
     (NilResult, Some ''duplicate key'') \<and>
   (\<exists>r. fst (MustNamedExec failingSqlx ''insert into a'' (IInt 1) (fresh 3 (Some 7))) =
           Returned (ResultSetPtr r) \<and>
        RowsAffected r = (0, Some ''duplicate key'')) \<and>
   sqlx_NamedExec fakeSqlx [] (OnDb 3) ''insert into a'' (IInt 1) = (DriverResult 1, None) \<and>
   fst (MustNamedExec fakeSqlx ''insert into a'' (IInt 1) (fresh 3 None)) =
     Returned (DriverResult 1)"
proof -
  have t1: "OnTx 7 = (case tx (uow (fresh 3 (Some 7))) of
                        Some h \<Rightarrow> OnTx h | None \<Rightarrow> OnDb (db (uow (fresh 3 (Some 7)))))"
    by (simp add: fresh_def NewUnitOfWork_def)
  have t2: "OnDb 3 = (case tx (uow (fresh 3 None)) of
                        Some h \<Rightarrow> OnTx h | None \<Rightarrow> OnDb (db (uow (fresh 3 None))))"
    by (simp add: fresh_def NewUnitOfWork_def)
  have c1: "calls (fresh 3 (Some 7)) = []" and c2: "calls (fresh 3 None) = []"
    by (simp_all add: fresh_def)
  have f: "sqlx_NamedExec failingSqlx [] (OnTx 7) ''insert into a'' (IInt 1) =
             (NilResult, Some ''duplicate key'')"
    by (simp add: failingSqlx_def)
  have g: "sqlx_NamedExec fakeSqlx [] (OnDb 3) ''insert into a'' (IInt 1) =
             (DriverResult 1, None)"
    by (simp add: fakeSqlx_def)
  show ?thesis
    using MustNamedExec_result_adapter
            [OF t1, of failingSqlx "''insert into a''" "IInt 1" NilResult "''duplicate key''"]
          MustNamedExec_result_adapter
            [OF t2, of fakeSqlx "''insert into a''" "IInt 1" "DriverResult 1"]
          f g c1 c2
    by auto
qed

section \<open>Commit and Rollback\<close>

text \<open>
  C7. On an instance whose transaction reference is nil, \<open>Commit\<close> and \<open>Rollback\<close> panic with
  the error \<open>noTransactionMsg\<close> instead of returning, and the state after the call is the
  state before it: no call reaches the collaborator, nothing is printed, \<open>u.db\<close> and \<open>u.tx\<close>
  are unchanged. Calling again therefore does the same.
\<close>

theorem settle_without_transaction:
  assumes "tx (uow s) = None"
  shows "Commit env s = (Panicked (PanicErr noTransactionMsg), s) \<and>
         Rollback env s = (Panicked (PanicErr noTransactionMsg), s) \<and>
         Commit env (snd (Commit env s)) = Commit env s \<and>
         Rollback env (snd (Rollback env s)) = Rollback env s \<and>
         Commit env (snd (Rollback env s)) = Commit env s \<and>
         Rollback env (snd (Commit env s)) = Rollback env s"
  using assms by (simp add: Commit_idle Rollback_idle)

text \<open>Witness of C7: an instance as constructed, with no transaction.\<close>

theorem settle_without_transaction_witness:
  "tx (uow (fresh 3 None)) = None \<and>
   Commit fakeSqlx (fresh 3 None) = (Panicked (PanicErr noTransactionMsg), fresh 3 None) \<and>
   Rollback fakeSqlx (fresh 3 None) = (Panicked (PanicErr noTransactionMsg), fresh 3 None)"
proof -
  have i: "tx (uow (fresh 3 None)) = None"
    by (simp add: fresh_def NewUnitOfWork_def)
  show ?thesis
    using settle_without_transaction [OF i, of fakeSqlx] i by simp
qed

text \<open>
  C6. On an instance that holds the transaction handle \<open>h\<close>, \<open>Commit\<close> and \<open>Rollback\<close> make
  one call on \<open>h\<close> and return what it answered (nil on success, the error on failure); in
  both cases the transaction reference is nil afterwards and nothing else of the instance
  has changed. A \<open>begin\<close> after that, which is how a later \<open>InTransaction\<close> starts, asks the
  connection for a transaction and holds the handle the connection hands out. A later
  \<open>InTransaction\<close> on the settled instance \<open>s'\<close> therefore runs its work function on an
  instance that holds the new handle \<open>h'\<close> and nothing of \<open>h\<close>, and settles the transaction
  the work function leaves held: one \<open>MustBegin\<close> on the connection, the calls of the work
  function, one \<open>Commit\<close> or \<open>Rollback\<close>, and the pair of the work function as the result.
\<close>

theorem settle_clears_transaction:
  assumes "tx (uow s) = Some h"
  shows "Commit env s =
           (Returned (sqlx_Commit env (calls s) h),
            s\<lparr>uow := (uow s)\<lparr>tx := None\<rparr>, calls := calls s @ [Event (OnTx h) CommitC]\<rparr>) \<and>
         Rollback env s =
           (Returned (sqlx_Rollback env (calls s) h),
            s\<lparr>uow := (uow s)\<lparr>tx := None\<rparr>, calls := calls s @ [Event (OnTx h) RollbackC]\<rparr>) \<and>
         tx (uow (snd (Commit env s))) = None \<and>
         tx (uow (snd (Rollback env s))) = None \<and>
         (sqlx_MustBegin env (calls (snd (Commit env s))) (db (uow s)) = Inr (Some h') \<longrightarrow>
            fst (begin_tx env (snd (Commit env s))) = Returned () \<and>
            uow (snd (begin_tx env (snd (Commit env s)))) = (uow s)\<lparr>tx := Some h'\<rparr>) \<and>
         (sqlx_MustBegin env (calls (snd (Rollback env s))) (db (uow s)) = Inr (Some h') \<longrightarrow>
            fst (begin_tx env (snd (Rollback env s))) = Returned () \<and>
            uow (snd (begin_tx env (snd (Rollback env s)))) = (uow s)\<lparr>tx := Some h'\<rparr>) \<and>
         ((s' = snd (Commit env s) \<or> s' = snd (Rollback env s)) \<and>
          sqlx_MustBegin env (calls s') (db (uow s)) = Inr (Some h') \<and>
          contextOver (s'\<lparr>uow := (uow s)\<lparr>tx := Some h'\<rparr>,
                          calls := calls s' @ [Event (OnDb (db (uow s))) MustBeginC]\<rparr>) =
            (Returned (v, e), s2) \<and>
          tx (uow s2) = Some h2 \<longrightarrow>
            InTransaction env contextOver s' =
              (Returned (v, e),
               s2\<lparr>uow := (uow s2)\<lparr>tx := None\<rparr>,
                  calls := calls s2 @
                    [Event (OnTx h2) (if e = None then CommitC else RollbackC)],
                  printed := printed s2 @
                    [if e = None then sqlx_Commit env (calls s2) h2
                     else sqlx_Rollback env (calls s2) h2]\<rparr>))"
proof -
  let ?c = "s\<lparr>uow := (uow s)\<lparr>tx := None\<rparr>, calls := calls s @ [Event (OnTx h) CommitC]\<rparr>"
  let ?r = "s\<lparr>uow := (uow s)\<lparr>tx := None\<rparr>, calls := calls s @ [Event (OnTx h) RollbackC]\<rparr>"
  have c: "Commit env s = (Returned (sqlx_Commit env (calls s) h), ?c)"
    by (rule Commit_active [OF assms])
  have r: "Rollback env s = (Returned (sqlx_Rollback env (calls s) h), ?r)"
    by (rule Rollback_active [OF assms])
  have bc: "fst (begin_tx env ?c) = Returned () \<and>
            uow (snd (begin_tx env ?c)) = (uow s)\<lparr>tx := Some h'\<rparr>"
    if "sqlx_MustBegin env (calls ?c) (db (uow s)) = Inr (Some h')"
    using that begin_tx_granted [of env ?c h'] by simp
  have br: "fst (begin_tx env ?r) = Returned () \<and>
            uow (snd (begin_tx env ?r)) = (uow s)\<lparr>tx := Some h'\<rparr>"
    if "sqlx_MustBegin env (calls ?r) (db (uow s)) = Inr (Some h')"
    using that begin_tx_granted [of env ?r h'] by simp
  have later: "InTransaction env contextOver s' =
              (Returned (v, e),
               s2\<lparr>uow := (uow s2)\<lparr>tx := None\<rparr>,
                  calls := calls s2 @
                    [Event (OnTx h2) (if e = None then CommitC else RollbackC)],
                  printed := printed s2 @
                    [if e = None then sqlx_Commit env (calls s2) h2
                     else sqlx_Rollback env (calls s2) h2]\<rparr>)"
    if settled: "s' = ?c \<or> s' = ?r"
      and granted: "sqlx_MustBegin env (calls s') (db (uow s)) = Inr (Some h')"
      and worked: "contextOver (s'\<lparr>uow := (uow s)\<lparr>tx := Some h'\<rparr>,
                          calls := calls s' @ [Event (OnDb (db (uow s))) MustBeginC]\<rparr>) =
            (Returned (v, e), s2)"
      and held: "tx (uow s2) = Some h2"
  proof -
    from settled have u: "uow s' = (uow s)\<lparr>tx := None\<rparr>"
      by auto
    then have d: "db (uow s') = db (uow s)"
      by simp
    have "begin_tx env s' =
            (Returned (),
             s'\<lparr>uow := (uow s')\<lparr>tx := Some h'\<rparr>,
                calls := calls s' @ [Event (OnDb (db (uow s'))) MustBeginC]\<rparr>)"
      using granted d begin_tx_granted [of env s' h'] by simp
    then have b: "begin_tx env s' =
            (Returned (),
             s'\<lparr>uow := (uow s)\<lparr>tx := Some h'\<rparr>,
                calls := calls s' @ [Event (OnDb (db (uow s))) MustBeginC]\<rparr>)"
      by (simp add: u)
    show ?thesis
      by (rule InTransaction_settles
            [of env s' "s'\<lparr>uow := (uow s)\<lparr>tx := Some h'\<rparr>,
                          calls := calls s' @ [Event (OnDb (db (uow s))) MustBeginC]\<rparr>"
                contextOver v e s2 h2, OF b worked held])
  qed
  show ?thesis
    using bc br later by (simp add: c r)
qed

text \<open>
  Witness of C6: the failing fake, on an instance holding transaction 7 on connection 3.
  Both settlements fail, both errors are returned, the reference is cleared, and the next
  \<open>begin\<close> holds the new handle 2. An \<open>InTransaction\<close> after the failed \<open>Commit\<close> makes
  its two inserts on the new transaction 2 and commits 2; nothing more is called on 7.
\<close>

theorem settle_clears_transaction_witness:
  "tx (uow (fresh 3 (Some 7))) = Some 7 \<and>
   Commit failingSqlx (fresh 3 (Some 7)) =
     (Returned (Some ''commit failed''),
      \<lparr>uow = \<lparr>db = 3, tx = None\<rparr>, calls = [Event (OnTx 7) CommitC], printed = []\<rparr>) \<and>
   Rollback failingSqlx (fresh 3 (Some 7)) =
     (Returned (Some ''rollback failed''),
      \<lparr>uow = \<lparr>db = 3, tx = None\<rparr>, calls = [Event (OnTx 7) RollbackC], printed = []\<rparr>) \<and>
   uow (snd (begin_tx failingSqlx (snd (Commit failingSqlx (fresh 3 (Some 7)))))) =
     \<lparr>db = 3, tx = Some 2\<rparr> \<and>
   InTransaction failingSqlx (work_inserts failingSqlx)
       (snd (Commit failingSqlx (fresh 3 (Some 7)))) =
     (Returned (IInt 2, None),
      \<lparr>uow = \<lparr>db = 3, tx = None\<rparr>,
       calls = [Event (OnTx 7) CommitC, Event (OnDb 3) MustBeginC,
                Event (OnTx 2) (NamedExecC ''insert into a'' (IInt 1)),
                Event (OnTx 2) (NamedExecC ''insert into b'' (IInt 2)),
                Event (OnTx 2) CommitC],
       printed = [Some ''commit failed'']\<rparr>)"
proof -
  let ?sc = "snd (Commit failingSqlx (fresh 3 (Some 7)))"
  let ?s1 = "\<lparr>uow = \<lparr>db = 3, tx = Some 2\<rparr>,
              calls = [Event (OnTx 7) CommitC, Event (OnDb 3) MustBeginC], printed = []\<rparr>"
  let ?s2 = "\<lparr>uow = \<lparr>db = 3, tx = Some 2\<rparr>,
              calls = [Event (OnTx 7) CommitC, Event (OnDb 3) MustBeginC,
                       Event (OnTx 2) (NamedExecC ''insert into a'' (IInt 1)),
                       Event (OnTx 2) (NamedExecC ''insert into b'' (IInt 2))],
              printed = []\<rparr>"
  have a: "tx (uow (fresh 3 (Some 7))) = Some 7"
    by (simp add: fresh_def NewUnitOfWork_def)
  have f: "fresh 3 (Some 7) = \<lparr>uow = \<lparr>db = 3, tx = Some 7\<rparr>, calls = [], printed = []\<rparr>"
    by (simp add: fresh_def NewUnitOfWork_def)
  note t = settle_clears_transaction
             [OF a, of failingSqlx 2 ?sc "work_inserts failingSqlx" "IInt 2" None ?s2 2]
  from t have c: "Commit failingSqlx (fresh 3 (Some 7)) =
      (Returned (Some ''commit failed''),
       \<lparr>uow = \<lparr>db = 3, tx = None\<rparr>, calls = [Event (OnTx 7) CommitC], printed = []\<rparr>)"
    by (simp add: f failingSqlx_def)
  from t have r: "Rollback failingSqlx (fresh 3 (Some 7)) =
      (Returned (Some ''rollback failed''),
       \<lparr>uow = \<lparr>db = 3, tx = None\<rparr>, calls = [Event (OnTx 7) RollbackC], printed = []\<rparr>)"
    by (simp add: f failingSqlx_def)
  have "sqlx_MustBegin failingSqlx [Event (OnTx 7) CommitC] 3 = Inr (Some 2)"
    by (simp add: failingSqlx_def)
  then have g: "sqlx_MustBegin failingSqlx (calls (snd (Commit failingSqlx (fresh 3 (Some 7)))))
             (db (uow (fresh 3 (Some 7)))) = Inr (Some 2)"
    by (simp add: c) (simp add: f)
  from t g have "uow (snd (begin_tx failingSqlx (snd (Commit failingSqlx (fresh 3 (Some 7)))))) =
      (uow (fresh 3 (Some 7)))\<lparr>tx := Some 2\<rparr>"
    by blast
  then have b: "uow (snd (begin_tx failingSqlx (snd (Commit failingSqlx (fresh 3 (Some 7)))))) =
      \<lparr>db = 3, tx = Some 2\<rparr>"
    by (simp add: f)
  have w: "work_inserts failingSqlx ?s1 = (Returned (IInt 2, None), ?s2)"
    by (simp add: work_inserts_def MustNamedExec_def record_call_def failingSqlx_def)
  have s1: "?sc\<lparr>uow := (uow (fresh 3 (Some 7)))\<lparr>tx := Some 2\<rparr>,
               calls := calls ?sc @ [Event (OnDb (db (uow (fresh 3 (Some 7))))) MustBeginC]\<rparr> = ?s1"
    by (simp add: c) (simp add: f)
  have w': "work_inserts failingSqlx
              (?sc\<lparr>uow := (uow (fresh 3 (Some 7)))\<lparr>tx := Some 2\<rparr>,
                  calls := calls ?sc @ [Event (OnDb (db (uow (fresh 3 (Some 7))))) MustBeginC]\<rparr>) =
            (Returned (IInt 2, None), ?s2)"
    by (simp only: s1 w)
  have held: "tx (uow ?s2) = Some 2"
    by simp
  have k: "\<And>es h. sqlx_Commit failingSqlx es h = Some ''commit failed''"
    by (simp add: failingSqlx_def)
  from t g w' held have "InTransaction failingSqlx (work_inserts failingSqlx) ?sc =
      (Returned (IInt 2, None),
       ?s2\<lparr>uow := (uow ?s2)\<lparr>tx := None\<rparr>,
           calls := calls ?s2 @
             [Event (OnTx 2) (if (None::error option) = None then CommitC else RollbackC)],
           printed := printed ?s2 @
             [if (None::error option) = None then sqlx_Commit failingSqlx (calls ?s2) 2
              else sqlx_Rollback failingSqlx (calls ?s2) 2]\<rparr>)"
    by blast
  then have i: "InTransaction failingSqlx (work_inserts failingSqlx) ?sc =
     (Returned (IInt 2, None),
      \<lparr>uow = \<lparr>db = 3, tx = None\<rparr>,
       calls = [Event (OnTx 7) CommitC, Event (OnDb 3) MustBeginC,
                Event (OnTx 2) (NamedExecC ''insert into a'' (IInt 1)),
                Event (OnTx 2) (NamedExecC ''insert into b'' (IInt 2)),
                Event (OnTx 2) CommitC],
       printed = [Some ''commit failed'']\<rparr>)"
    by (simp add: k)
  from a c r b i show ?thesis
    by blast
qed

section \<open>Starting a transaction on an instance that holds one\<close>

text \<open>
  C9. \<open>begin\<close> never reads \<open>u.tx\<close>. On an instance that holds the handle \<open>h\<close> its outcome
  is the outcome it has on the same instance with no transaction, so the held transaction
  raises no failure; the only call it makes is \<open>MustBegin\<close> on the connection, so \<open>h\<close>
  is neither committed nor rolled back; and when the connection hands out \<open>h'\<close>, the
  reference to \<open>h\<close> is overwritten with \<open>h'\<close> and \<open>InTransaction\<close> goes on exactly as it
  does from the instance with no transaction.
\<close>

theorem reentrant_begin_overwrites:
  assumes "tx (uow s) = Some h"
  shows "fst (begin_tx env s) = fst (begin_tx env (s\<lparr>uow := (uow s)\<lparr>tx := None\<rparr>\<rparr>)) \<and>
         calls (snd (begin_tx env s)) = calls s @ [Event (OnDb (db (uow s))) MustBeginC] \<and>
         (sqlx_MustBegin env (calls s) (db (uow s)) = Inr (Some h') \<longrightarrow>
            begin_tx env s =
              (Returned (),
               s\<lparr>uow := (uow s)\<lparr>tx := Some h'\<rparr>,
                 calls := calls s @ [Event (OnDb (db (uow s))) MustBeginC]\<rparr>) \<and>
            InTransaction env contextOver s =
              InTransaction env contextOver (s\<lparr>uow := (uow s)\<lparr>tx := None\<rparr>\<rparr>))"
proof (intro conjI impI)
  show "fst (begin_tx env s) = fst (begin_tx env (s\<lparr>uow := (uow s)\<lparr>tx := None\<rparr>\<rparr>))"
    by (simp add: begin_tx_ignores_tx)
  show "calls (snd (begin_tx env s)) = calls s @ [Event (OnDb (db (uow s))) MustBeginC]"
    by (simp add: begin_tx_def record_call_def Let_def split: sum.split)
next
  assume granted: "sqlx_MustBegin env (calls s) (db (uow s)) = Inr (Some h')"
  let ?i = "s\<lparr>uow := (uow s)\<lparr>tx := None\<rparr>\<rparr>"
  let ?s1 = "s\<lparr>uow := (uow s)\<lparr>tx := Some h'\<rparr>,
               calls := calls s @ [Event (OnDb (db (uow s))) MustBeginC]\<rparr>"
  show held: "begin_tx env s = (Returned (), ?s1)"
    by (rule begin_tx_granted [OF granted])
  have "begin_tx env ?i = (Returned (), ?s1)"
    using granted begin_tx_granted [of env ?i h'] by simp
  with held show "InTransaction env contextOver s = InTransaction env contextOver ?i"
    by (simp add: InTransaction_def)
qed

text \<open>
  Witness of C9: an instance holding transaction 7 starts \<open>InTransaction\<close> again. The
  reference becomes the new handle 1, which is the one committed; no call is ever made on 7.
\<close>

theorem reentrant_begin_overwrites_witness:
  "tx (uow (fresh 3 (Some 7))) = Some 7 \<and>
   begin_tx fakeSqlx (fresh 3 (Some 7)) =
     (Returned (),
      \<lparr>uow = \<lparr>db = 3, tx = Some 1\<rparr>, calls = [Event (OnDb 3) MustBeginC], printed = []\<rparr>) \<and>
   InTransaction fakeSqlx (\<lambda>s. (Returned (IInt 1, None), s)) (fresh 3 (Some 7)) =
     (Returned (IInt 1, None),
      \<lparr>uow = \<lparr>db = 3, tx = None\<rparr>,
       calls = [Event (OnDb 3) MustBeginC, Event (OnTx 1) CommitC], printed = [None]\<rparr>)"
proof -
  have a: "tx (uow (fresh 3 (Some 7))) = Some 7"
    by (simp add: fresh_def NewUnitOfWork_def)
  have f: "fresh 3 (Some 7) = \<lparr>uow = \<lparr>db = 3, tx = Some 7\<rparr>, calls = [], printed = []\<rparr>"
    by (simp add: fresh_def NewUnitOfWork_def)
  have i: "InTransaction fakeSqlx (\<lambda>s. (Returned (IInt 1, None), s))
             \<lparr>uow = \<lparr>db = 3, tx = None\<rparr>, calls = [], printed = []\<rparr> =
           (Returned (IInt 1, None),
            \<lparr>uow = \<lparr>db = 3, tx = None\<rparr>,
             calls = [Event (OnDb 3) MustBeginC, Event (OnTx 1) CommitC], printed = [None]\<rparr>)"
    by (simp add: InTransaction_def begin_tx_def Commit_def record_call_def Println_def
        fakeSqlx_def)
  show ?thesis
    using reentrant_begin_overwrites
            [OF a, of fakeSqlx 1 "\<lambda>s. (Returned (IInt 1, None), s)"] a i
    by (simp add: f fakeSqlx_def)
qed

section \<open>InTransaction\<close>

text \<open>
  C2, as the claim states it, fails: the work function \<open>db.Commit(); return 1, nil\<close> returns
  normally with a nil error, and \<open>InTransaction\<close> does not return \<open>(1, nil)\<close>. Its own
  \<open>Commit\<close> finds the transaction reference nil and panics, and so does the \<open>Rollback\<close> of
  the deferred function; the caller sees that panic.
\<close>

theorem InTransaction_commit_counterexample:
  "begin_tx fakeSqlx (fresh 3 None) =
     (Returned (),
      \<lparr>uow = \<lparr>db = 3, tx = Some 1\<rparr>, calls = [Event (OnDb 3) MustBeginC], printed = []\<rparr>) \<and>
   fst (work_commits fakeSqlx
         \<lparr>uow = \<lparr>db = 3, tx = Some 1\<rparr>, calls = [Event (OnDb 3) MustBeginC], printed = []\<rparr>) =
     Returned (IInt 1, None) \<and>
   InTransaction fakeSqlx (work_commits fakeSqlx) (fresh 3 None) =
     (Panicked (PanicErr noTransactionMsg),
      \<lparr>uow = \<lparr>db = 3, tx = None\<rparr>,
       calls = [Event (OnDb 3) MustBeginC, Event (OnTx 1) CommitC], printed = []\<rparr>) \<and>
   fst (InTransaction fakeSqlx (work_commits fakeSqlx) (fresh 3 None)) \<noteq> Returned (IInt 1, None)"
  by (simp add: InTransaction_def begin_tx_def work_commits_def Commit_def Rollback_def
      recovered_def deferred_def record_call_def Println_def fresh_def NewUnitOfWork_def fakeSqlx_def)

text \<open>
  C2, amended. When \<open>begin\<close> has returned, the work function returns \<open>(v, nil)\<close> and the
  instance still holds a transaction handle \<open>h\<close> (the work function has not settled the
  transaction itself), \<open>InTransaction\<close> returns exactly \<open>(v, nil)\<close>, and between the return
  of the work function and its own it makes exactly one call on the collaborator, the
  \<open>Commit\<close> of \<open>h\<close>: no \<open>Rollback\<close>. The answer of that \<open>Commit\<close> is printed and the
  transaction reference is nil afterwards.
\<close>

theorem InTransaction_commit:
  assumes "begin_tx env s = (Returned (), s1)"
    and "contextOver s1 = (Returned (v, None), s2)"
    and "tx (uow s2) = Some h"
  shows "InTransaction env contextOver s =
           (Returned (v, None),
            s2\<lparr>uow := (uow s2)\<lparr>tx := None\<rparr>,
               calls := calls s2 @ [Event (OnTx h) CommitC],
               printed := printed s2 @ [sqlx_Commit env (calls s2) h]\<rparr>)"
  using InTransaction_settles [of env s s1 contextOver v None s2 h, OF assms] by simp

text \<open>
  Witness of C2 amended: two inserts and \<open>return 2, nil\<close>. Both inserts are recorded on the
  new transaction 1, which is then committed once.
\<close>

theorem InTransaction_commit_witness:
  "InTransaction fakeSqlx (work_inserts fakeSqlx) (fresh 3 None) =
     (Returned (IInt 2, None),
      \<lparr>uow = \<lparr>db = 3, tx = None\<rparr>,
       calls = [Event (OnDb 3) MustBeginC,
                Event (OnTx 1) (NamedExecC ''insert into a'' (IInt 1)),
                Event (OnTx 1) (NamedExecC ''insert into b'' (IInt 2)),
                Event (OnTx 1) CommitC],
       printed = [None]\<rparr>)"
proof -
  let ?s1 = "\<lparr>uow = \<lparr>db = 3, tx = Some 1\<rparr>, calls = [Event (OnDb 3) MustBeginC], printed = []\<rparr>"
  let ?s2 = "\<lparr>uow = \<lparr>db = 3, tx = Some 1\<rparr>,
              calls = [Event (OnDb 3) MustBeginC,
                       Event (OnTx 1) (NamedExecC ''insert into a'' (IInt 1)),
                       Event (OnTx 1) (NamedExecC ''insert into b'' (IInt 2))],
              printed = []\<rparr>"
  have b: "begin_tx fakeSqlx (fresh 3 None) = (Returned (), ?s1)"
    by (simp add: begin_tx_def record_call_def fresh_def NewUnitOfWork_def fakeSqlx_def)
  have w: "work_inserts fakeSqlx ?s1 = (Returned (IInt 2, None), ?s2)"
    by (simp add: work_inserts_def MustNamedExec_def record_call_def fakeSqlx_def)
  have a: "tx (uow ?s2) = Some 1"
    by simp
  have c: "\<And>es h. sqlx_Commit fakeSqlx es h = None"
    by (simp add: fakeSqlx_def)
  show ?thesis
    using InTransaction_commit
            [of fakeSqlx "fresh 3 None" ?s1 "work_inserts fakeSqlx" "IInt 2" ?s2 1, OF b w a]
    by (simp add: c)
qed

text \<open>
  C3, as the claim states it, fails: the work function
  \<open>db.Rollback(); return nil, errors.New("rejected")\<close> returns normally with a non-nil
  error and a nil value, and \<open>InTransaction\<close> does not return that pair: its own \<open>Rollback\<close>
  panics on the nil transaction reference, in the body and again in the deferred function.
\<close>

theorem InTransaction_rollback_counterexample:
  "begin_tx fakeSqlx (fresh 3 None) =
     (Returned (),
      \<lparr>uow = \<lparr>db = 3, tx = Some 1\<rparr>, calls = [Event (OnDb 3) MustBeginC], printed = []\<rparr>) \<and>
   fst (work_rolls_back fakeSqlx
         \<lparr>uow = \<lparr>db = 3, tx = Some 1\<rparr>, calls = [Event (OnDb 3) MustBeginC], printed = []\<rparr>) =
     Returned (INil, Some ''rejected'') \<and>
   InTransaction fakeSqlx (work_rolls_back fakeSqlx) (fresh 3 None) =
     (Panicked (PanicErr noTransactionMsg),
      \<lparr>uow = \<lparr>db = 3, tx = None\<rparr>,
       calls = [Event (OnDb 3) MustBeginC, Event (OnTx 1) RollbackC], printed = []\<rparr>) \<and>
   fst (InTransaction fakeSqlx (work_rolls_back fakeSqlx) (fresh 3 None)) \<noteq>
     Returned (INil, Some ''rejected'')"
  by (simp add: InTransaction_def begin_tx_def work_rolls_back_def Commit_def Rollback_def
      recovered_def deferred_def record_call_def Println_def fresh_def NewUnitOfWork_def fakeSqlx_def)

text \<open>
  C3, amended. When \<open>begin\<close> has returned, the work function returns \<open>(nil, err)\<close> with a
  non-nil \<open>err\<close> and the instance still holds a transaction handle \<open>h\<close>, \<open>InTransaction\<close>
  returns exactly \<open>(nil, err)\<close>, and between the return of the work function and its own it
  makes exactly one call on the collaborator, the \<open>Rollback\<close> of \<open>h\<close>: no \<open>Commit\<close>.
\<close>

theorem InTransaction_rollback:
  assumes "begin_tx env s = (Returned (), s1)"
    and "contextOver s1 = (Returned (INil, Some e), s2)"
    and "tx (uow s2) = Some h"
  shows "InTransaction env contextOver s =
           (Returned (INil, Some e),
            s2\<lparr>uow := (uow s2)\<lparr>tx := None\<rparr>,
               calls := calls s2 @ [Event (OnTx h) RollbackC],
               printed := printed s2 @ [sqlx_Rollback env (calls s2) h]\<rparr>)"
  using InTransaction_settles [of env s s1 contextOver INil "Some e" s2 h, OF assms] by simp

text \<open>Witness of C3 amended: one insert and \<open>return nil, errors.New("rejected")\<close>.\<close>

theorem InTransaction_rollback_witness:
  "InTransaction fakeSqlx (work_rejects fakeSqlx) (fresh 3 None) =
     (Returned (INil, Some ''rejected''),
      \<lparr>uow = \<lparr>db = 3, tx = None\<rparr>,
       calls = [Event (OnDb 3) MustBeginC,
                Event (OnTx 1) (NamedExecC ''insert into a'' (IInt 1)),
                Event (OnTx 1) RollbackC],
       printed = [None]\<rparr>)"
proof -
  let ?s1 = "\<lparr>uow = \<lparr>db = 3, tx = Some 1\<rparr>, calls = [Event (OnDb 3) MustBeginC], printed = []\<rparr>"
  let ?s2 = "\<lparr>uow = \<lparr>db = 3, tx = Some 1\<rparr>,
              calls = [Event (OnDb 3) MustBeginC,
                       Event (OnTx 1) (NamedExecC ''insert into a'' (IInt 1))],
              printed = []\<rparr>"
  have b: "begin_tx fakeSqlx (fresh 3 None) = (Returned (), ?s1)"
    by (simp add: begin_tx_def record_call_def fresh_def NewUnitOfWork_def fakeSqlx_def)
  have w: "work_rejects fakeSqlx ?s1 = (Returned (INil, Some ''rejected''), ?s2)"
    by (simp add: work_rejects_def MustNamedExec_def record_call_def fakeSqlx_def)
  have a: "tx (uow ?s2) = Some 1"
    by simp
  have c: "\<And>es h. sqlx_Rollback fakeSqlx es h = None"
    by (simp add: fakeSqlx_def)
  show ?thesis
    using InTransaction_rollback
            [of fakeSqlx "fresh 3 None" ?s1 "work_rejects fakeSqlx" "''rejected''" ?s2 1, OF b w a]
    by (simp add: c)
qed

text \<open>
  C4, as the claim states it, fails: the work function \<open>db.Rollback(); panic("boom")\<close>
  panics, and the caller of \<open>InTransaction\<close> does not see \<open>boom\<close>. The \<open>Rollback\<close> in the
  deferred function finds the transaction reference nil and panics before \<open>panic(r)\<close> is
  reached, so the caller sees the failure of that \<open>Rollback\<close> in place of the original.
\<close>

theorem InTransaction_panic_counterexample:
  "begin_tx fakeSqlx (fresh 3 None) =
     (Returned (),
      \<lparr>uow = \<lparr>db = 3, tx = Some 1\<rparr>, calls = [Event (OnDb 3) MustBeginC], printed = []\<rparr>) \<and>
   fst (work_rolls_back_panics fakeSqlx
         \<lparr>uow = \<lparr>db = 3, tx = Some 1\<rparr>, calls = [Event (OnDb 3) MustBeginC], printed = []\<rparr>) =
     Panicked (PanicVal (IStr ''boom'')) \<and>
   InTransaction fakeSqlx (work_rolls_back_panics fakeSqlx) (fresh 3 None) =
     (Panicked (PanicErr noTransactionMsg),
      \<lparr>uow = \<lparr>db = 3, tx = None\<rparr>,
       calls = [Event (OnDb 3) MustBeginC, Event (OnTx 1) RollbackC], printed = []\<rparr>) \<and>
   fst (InTransaction fakeSqlx (work_rolls_back_panics fakeSqlx) (fresh 3 None)) \<noteq>
     Panicked (PanicVal (IStr ''boom''))"
  by (simp add: InTransaction_def begin_tx_def work_rolls_back_panics_def Commit_def Rollback_def
      recovered_def deferred_def record_call_def Println_def fresh_def NewUnitOfWork_def fakeSqlx_def)

text \<open>
  C4, amended. When \<open>begin\<close> has returned and the work function panics with a value
  \<open>r\<close> that \<open>recover()\<close> answers as non-nil, while the instance still holds a transaction
  handle \<open>h\<close>, \<open>InTransaction\<close> makes exactly one call on the collaborator after the
  panic, the \<open>Rollback\<close> of \<open>h\<close>, prints its answer, and panics with \<open>r\<close> itself,
  whatever that \<open>Rollback\<close> answered. (A panic that \<open>recover()\<close> answers as nil does not
  pass the test \<open>r != nil\<close>: see \<open>InTransaction_swallows_nil_panic\<close>.)
\<close>

theorem InTransaction_panic:
  assumes "begin_tx env s = (Returned (), s1)"
    and "contextOver s1 = (Panicked r, s2)"
    and "r \<noteq> PanicVal INil"
    and "tx (uow s2) = Some h"
  shows "InTransaction env contextOver s =
           (Panicked r,
            s2\<lparr>uow := (uow s2)\<lparr>tx := None\<rparr>,
               calls := calls s2 @ [Event (OnTx h) RollbackC],
               printed := printed s2 @ [sqlx_Rollback env (calls s2) h]\<rparr>)"
  using InTransaction_work_panics [of env s s1 contextOver r s2, OF assms(1,2)]
    deferred_active [OF assms(3,4), of env]
  by simp

text \<open>
  Witness of C4 amended: one insert and \<open>panic("boom")\<close>, on the failing fake. The rollback
  fails, its error is printed, and the panic that leaves is \<open>boom\<close>.
\<close>

theorem InTransaction_panic_witness:
  "InTransaction failingSqlx (work_panics failingSqlx) (fresh 3 None) =
     (Panicked (PanicVal (IStr ''boom'')),
      \<lparr>uow = \<lparr>db = 3, tx = None\<rparr>,
       calls = [Event (OnDb 3) MustBeginC,
                Event (OnTx 1) (NamedExecC ''insert into a'' (IInt 1)),
                Event (OnTx 1) RollbackC],
       printed = [Some ''rollback failed'']\<rparr>)"
proof -
  let ?s1 = "\<lparr>uow = \<lparr>db = 3, tx = Some 1\<rparr>, calls = [Event (OnDb 3) MustBeginC], printed = []\<rparr>"
  let ?s2 = "\<lparr>uow = \<lparr>db = 3, tx = Some 1\<rparr>,
              calls = [Event (OnDb 3) MustBeginC,
                       Event (OnTx 1) (NamedExecC ''insert into a'' (IInt 1))],
              printed = []\<rparr>"
  have b: "begin_tx failingSqlx (fresh 3 None) = (Returned (), ?s1)"
    by (simp add: begin_tx_def record_call_def fresh_def NewUnitOfWork_def failingSqlx_def)
  have w: "work_panics failingSqlx ?s1 = (Panicked (PanicVal (IStr ''boom'')), ?s2)"
    by (simp add: work_panics_def MustNamedExec_def record_call_def failingSqlx_def)
  have a: "tx (uow ?s2) = Some 1"
    by simp
  have n: "PanicVal (IStr ''boom'') \<noteq> PanicVal INil"
    by simp
  have c: "\<And>es h. sqlx_Rollback failingSqlx es h = Some ''rollback failed''"
    by (simp add: failingSqlx_def)
  show ?thesis
    using InTransaction_panic
            [of failingSqlx "fresh 3 None" ?s1 "work_panics failingSqlx" "PanicVal (IStr ''boom'')"
               ?s2 1, OF b w n a]
    by (simp add: c)
qed

text \<open>
  C5, as the claim states it, fails: on the failing fake the work function
  \<open>err := db.Commit(); return nil, err\<close> returns normally with the pair
  \<open>(nil, commit failed)\<close>, and \<open>InTransaction\<close> returns no pair at all: its \<open>Rollback\<close>
  panics on the nil transaction reference.
\<close>

theorem InTransaction_result_counterexample:
  "begin_tx failingSqlx (fresh 3 None) =
     (Returned (),
      \<lparr>uow = \<lparr>db = 3, tx = Some 1\<rparr>, calls = [Event (OnDb 3) MustBeginC], printed = []\<rparr>) \<and>
   fst (work_reports_commit failingSqlx
         \<lparr>uow = \<lparr>db = 3, tx = Some 1\<rparr>, calls = [Event (OnDb 3) MustBeginC], printed = []\<rparr>) =
     Returned (INil, Some ''commit failed'') \<and>
   InTransaction failingSqlx (work_reports_commit failingSqlx) (fresh 3 None) =
     (Panicked (PanicErr noTransactionMsg),
      \<lparr>uow = \<lparr>db = 3, tx = None\<rparr>,
       calls = [Event (OnDb 3) MustBeginC, Event (OnTx 1) CommitC], printed = []\<rparr>) \<and>
   fst (InTransaction failingSqlx (work_reports_commit failingSqlx) (fresh 3 None)) \<noteq>
     Returned (INil, Some ''commit failed'')"
  by (simp add: InTransaction_def begin_tx_def work_reports_commit_def Commit_def Rollback_def
      recovered_def deferred_def record_call_def Println_def fresh_def NewUnitOfWork_def failingSqlx_def)

text \<open>
  C5, amended. When \<open>begin\<close> has returned, the work function returns \<open>(v, e)\<close> and the
  instance still holds a transaction handle \<open>h\<close>, \<open>InTransaction\<close> returns exactly \<open>(v, e)\<close>
  and the answer of the settling call, the \<open>Commit\<close> of \<open>h\<close> for a nil \<open>e\<close> and the
  \<open>Rollback\<close> of \<open>h\<close> otherwise, is printed: whatever that answer is, it is no part of the
  result. And whenever the work function has returned a pair, with the transaction
  reference held or not, a pair that \<open>InTransaction\<close> returns is that pair.
\<close>

theorem InTransaction_result:
  "(begin_tx env s = (Returned (), s1) \<and> contextOver s1 = (Returned (v, e), s2) \<and>
    tx (uow s2) = Some h \<longrightarrow>
      fst (InTransaction env contextOver s) = Returned (v, e) \<and>
      printed (snd (InTransaction env contextOver s)) =
        printed s2 @ [if e = None then sqlx_Commit env (calls s2) h
                      else sqlx_Rollback env (calls s2) h]) \<and>
   (begin_tx env s = (Returned (), s1) \<and> contextOver s1 = (Returned (v, e), s2) \<and>
    InTransaction env contextOver s = (Returned p, s') \<longrightarrow>
      p = (v, e))"
proof (intro conjI impI)
  assume h: "begin_tx env s = (Returned (), s1) \<and> contextOver s1 = (Returned (v, e), s2) \<and>
             tx (uow s2) = Some h"
  then have "InTransaction env contextOver s =
           (Returned (v, e),
            s2\<lparr>uow := (uow s2)\<lparr>tx := None\<rparr>,
               calls := calls s2 @ [Event (OnTx h) (if e = None then CommitC else RollbackC)],
               printed := printed s2 @
                 [if e = None then sqlx_Commit env (calls s2) h
                  else sqlx_Rollback env (calls s2) h]\<rparr>)"
    using InTransaction_settles [of env s s1 contextOver v e s2 h] by blast
  then show "fst (InTransaction env contextOver s) = Returned (v, e)"
    and "printed (snd (InTransaction env contextOver s)) =
        printed s2 @ [if e = None then sqlx_Commit env (calls s2) h
                      else sqlx_Rollback env (calls s2) h]"
    by simp_all
next
  assume "begin_tx env s = (Returned (), s1) \<and> contextOver s1 = (Returned (v, e), s2) \<and>
          InTransaction env contextOver s = (Returned p, s')"
  then show "p = (v, e)"
    using InTransaction_Returned_is_work_pair [of env s s1 contextOver "(v, e)" s2 p s']
    by blast
qed

text \<open>
  Witness of C5 amended: two inserts and \<open>return 2, nil\<close>, on the failing fake. The commit
  fails; its error is printed and the result is still \<open>(2, nil)\<close>.
\<close>

theorem InTransaction_result_witness:
  "fst (InTransaction failingSqlx (work_inserts failingSqlx) (fresh 3 None)) =
     Returned (IInt 2, None) \<and>
   printed (snd (InTransaction failingSqlx (work_inserts failingSqlx) (fresh 3 None))) =
     [Some ''commit failed'']"
proof -
  let ?s1 = "\<lparr>uow = \<lparr>db = 3, tx = Some 1\<rparr>, calls = [Event (OnDb 3) MustBeginC], printed = []\<rparr>"
  let ?s2 = "\<lparr>uow = \<lparr>db = 3, tx = Some 1\<rparr>,
              calls = [Event (OnDb 3) MustBeginC,
                       Event (OnTx 1) (NamedExecC ''insert into a'' (IInt 1)),
                       Event (OnTx 1) (NamedExecC ''insert into b'' (IInt 2))],
              printed = []\<rparr>"
  have b: "begin_tx failingSqlx (fresh 3 None) = (Returned (), ?s1)"
    by (simp add: begin_tx_def record_call_def fresh_def NewUnitOfWork_def failingSqlx_def)
  have w: "work_inserts failingSqlx ?s1 = (Returned (IInt 2, None), ?s2)"
    by (simp add: work_inserts_def MustNamedExec_def record_call_def failingSqlx_def)
  have a: "tx (uow ?s2) = Some 1"
    by simp
  have c: "\<And>es h. sqlx_Commit failingSqlx es h = Some ''commit failed''"
    by (simp add: failingSqlx_def)
  have "fst (InTransaction failingSqlx (work_inserts failingSqlx) (fresh 3 None)) =
          Returned (IInt 2, None) \<and>
        printed (snd (InTransaction failingSqlx (work_inserts failingSqlx) (fresh 3 None))) =
          printed ?s2 @ [if (None::error option) = None then sqlx_Commit failingSqlx (calls ?s2) 1
                         else sqlx_Rollback failingSqlx (calls ?s2) 1]"
    using InTransaction_result
            [of failingSqlx "fresh 3 None" ?s1 "work_inserts failingSqlx" "IInt 2" None ?s2 1]
          b w a
    by blast
  then show ?thesis
    by (simp add: c)
qed

end
